theory Spec2Isabelle
  imports Main
begin

section \<open>The QuecPython minimal demo: a UART / TCP relay with an activity LED\<close>

text \<open>
  The program is one Python class, \<open>Demo\<close>, in \<open>minimal_demo.py\<close>. Its methods call
  three vendor libraries (the UART driver, the socket library, the thread library) and a
  logger. The embedding keeps the methods as functions on the object's state. What a
  library call answers is an input of the function (an environment record), and what the
  method calls, in order, is its output (a list of events). A library call that can raise
  answers a value of \<open>exn + 'a\<close>, with \<open>Inl\<close> for the exception. The device calls on the
  UART and on the socket, and the creation of the pin, can raise; logging, thread
  creation, the thread-liveness query, pin writes and sleeps are taken to return.
\<close>

subsection \<open>Python values, exceptions and dictionaries\<close>

type_synonym bytes = string

text \<open>
  The values the configuration is made of. \<open>PDict\<close> is a dictionary with string keys, in
  the order it was written.
\<close>

datatype pyval =
    PNone
  | PInt int
  | PStr string
  | PDict "(string \<times> pyval) list"

text \<open>
  An argument of an exception: a value, or the string \<open>t.format(*vs)\<close> as \<open>Fmt t vs\<close>, kept
  unevaluated.
\<close>

datatype exn_arg = Val pyval | Fmt string "pyval list"

text \<open>
  Every class below is a subclass of Python's \<open>Exception\<close>, so \<open>except Exception\<close>
  catches each of them. \<open>OSError\<close> stands for that class and its subclasses.
\<close>

datatype exn_class = OSError | ValueError | AttributeError | KeyError | TypeError | IndexError | OtherError

datatype exn = Exn (cls: exn_class) (args: "exn_arg list")

text \<open>\<open>v[k]\<close> for a string key: a missing key raises, and so does indexing a non-dictionary.\<close>

fun getitem :: "pyval \<Rightarrow> string \<Rightarrow> exn + pyval" where
  "getitem (PDict kvs) k =
     (case map_of kvs k of
        None \<Rightarrow> Inl (Exn KeyError [Val (PStr k)])
      | Some v \<Rightarrow> Inr v)"
| "getitem _ k = Inl (Exn TypeError [Val (PStr ''object is not subscriptable'')])"

text \<open>\<open>v[k1][k2]\<close>, as in \<open>self.config['SERVER']['host']\<close>.\<close>

definition getitem2 :: "pyval \<Rightarrow> string \<Rightarrow> string \<Rightarrow> exn + pyval" where
  "getitem2 v k1 k2 =
     (case getitem v k1 of
        Inl e \<Rightarrow> Inl e
      | Inr g \<Rightarrow> getitem g k2)"

text \<open>Running one fallible step after another: the first exception ends the sequence.\<close>

definition and_then :: "exn + 'a \<Rightarrow> ('a \<Rightarrow> exn + 'b) \<Rightarrow> exn + 'b" where
  "and_then x f = (case x of Inl e \<Rightarrow> Inl e | Inr v \<Rightarrow> f v)"

text \<open>Truthiness, as \<open>if v\<close>, \<open>not v\<close> and \<open>v or w\<close> read it.\<close>

fun truthy :: "pyval \<Rightarrow> bool" where
  "truthy PNone = False"
| "truthy (PInt n) = (n \<noteq> 0)"
| "truthy (PStr s) = (s \<noteq> [])"
| "truthy (PDict kvs) = (kvs \<noteq> [])"

subsection \<open>The configuration\<close>

definition DEMO_CONFIG :: pyval where
  "DEMO_CONFIG = PDict
     [(''PROJECT_NAME'', PStr ''QuecPython_DEMO''),
      (''PROJECT_VERSION'', PStr ''1.0.0''),
      (''SERVER'', PDict
         [(''host'', PStr ''220.180.239.212''),
          (''port'', PStr ''8305''),
          (''timeout'', PInt 5),
          (''keep_alive'', PInt 5)]),
      (''UART'', PDict
         [(''port'', PInt 2),
          (''baudrate'', PInt 115200),
          (''bytesize'', PInt 8),
          (''parity'', PInt 0),
          (''stopbits'', PInt 1),
          (''flowctl'', PInt 0)]),
      (''LED'', PDict
         [(''GPIOn'', PInt 16)])]"

subsection \<open>Events: the calls a method makes\<close>

datatype level = DEBUG | INFO | ERROR | CRITICAL

text \<open>What a log line is formatted from.\<close>

datatype logarg = ABytes bytes | AExn exn | AInt int | ASelf string

text \<open>The two thread bodies of the program, with the arguments a thread is started with.\<close>

datatype task = SockRecvWorker | LedBlinkWorker int int int

text \<open>
  A UART or socket object is named by the number the library gave it when it was created.
  \<open>Blink\<close> records that \<open>self.blink\<close> was called, with its arguments.
\<close>

datatype event =
    UartNew "pyval list"
  | UartSetCallback nat
  | UartAny nat
  | UartRead nat int
  | UartWrite nat bytes
  | GetAddrInfo pyval pyval
  | SockNew
  | SockConnect nat string int
  | SockSetTimeout nat pyval
  | SockSetKeepAlive nat pyval
  | SockSend nat bytes
  | SockRecv nat nat
  | StartThread task
  | Blink int int int
  | LedWrite int
  | SleepMs int
  | Log level string "logarg list"

subsection \<open>The object\<close>

text \<open>
  The fields of \<open>Demo\<close>: \<open>__uart\<close>, \<open>__sock\<close> and \<open>__led_blink_thread_id\<close> start as
  \<open>None\<close>. \<open>led\<close> holds the pin object, named by the number the library gave it.
\<close>

record demo =
  name :: string
  config :: pyval
  uart :: "nat option"
  sock :: "nat option"
  led :: nat
  led_blink_thread_id :: "int option"

text \<open>
  What the pin library answers in the constructor: \<open>pin_attr\<close> answers
  \<open>getattr(Pin, 'GPIO{}'.format(n))\<close>, which raises for a pin the class does not have,
  and \<open>pin_new_result\<close> answers \<open>Pin(...)\<close>.
\<close>

record pin_env =
  pin_attr :: "pyval \<Rightarrow> exn + pyval"
  pin_new_result :: "exn + nat"

text \<open>
  \<open>__init__\<close>: \<open>config or DEMO_CONFIG\<close>, then the pin from \<open>config['LED']['GPIOn']\<close>. Each
  of the three steps can raise, and then the constructor raises.
\<close>

definition init :: "string \<Rightarrow> pyval \<Rightarrow> pin_env \<Rightarrow> exn + demo" where
  "init nm cfg env =
     (let c = (if truthy cfg then cfg else DEMO_CONFIG) in
      and_then (getitem2 c ''LED'' ''GPIOn'') (\<lambda>n.
      and_then (pin_attr env n) (\<lambda>g.
      and_then (pin_new_result env) (\<lambda>p.
      Inr \<lparr>name = nm, config = c, uart = None, sock = None, led = p,
           led_blink_thread_id = None\<rparr>))))"

text \<open>Calling a method on a field that is still \<open>None\<close>.\<close>

definition none_has_no :: "string \<Rightarrow> exn" where
  "none_has_no attr =
     Exn AttributeError [Fmt ''NoneType object has no attribute {}'' [PStr attr]]"

subsection \<open>The LED\<close>

text \<open>What the thread library answers: whether a thread runs, and the id of a new thread.\<close>

record thread_env =
  thread_is_running :: "int \<Rightarrow> bool"
  new_thread_id :: int

text \<open>
  The guard of \<open>blink\<close>: \<open>self.__led_blink_thread_id and _thread.threadIsRunning(...)\<close>.
  \<open>None\<close> and the id 0 are false in Python, and then the library is not asked.
\<close>

definition blink_busy :: "demo \<Rightarrow> thread_env \<Rightarrow> bool" where
  "blink_busy d env =
     (case led_blink_thread_id d of
        None \<Rightarrow> False
      | Some t \<Rightarrow> t \<noteq> 0 \<and> thread_is_running env t)"

definition blink :: "demo \<Rightarrow> thread_env \<Rightarrow> int \<Rightarrow> int \<Rightarrow> int \<Rightarrow> event list \<times> demo" where
  "blink d env on_remaining off_remaining count =
     (if blink_busy d env then ([], d)
      else ([StartThread (LedBlinkWorker on_remaining off_remaining count)],
            d\<lparr>led_blink_thread_id := Some (new_thread_id env)\<rparr>))"

text \<open>The thread body: \<open>count\<close> cycles of on, sleep, off, sleep.\<close>

function led_blink_thread_worker :: "int \<Rightarrow> int \<Rightarrow> int \<Rightarrow> event list" where
  "led_blink_thread_worker on_remaining off_remaining count =
     (if count > 0
      then [LedWrite 1, SleepMs on_remaining, LedWrite 0, SleepMs off_remaining]
           @ led_blink_thread_worker on_remaining off_remaining (count - 1)
      else [])"
  by pat_completeness auto
termination
  by (relation "measure (\<lambda>(a, b, c). nat c)") auto

subsection \<open>Serial to cloud: the UART callback\<close>

record cb_env =
  any_result :: "exn + int"
  read_result :: "exn + bytes"
  send_result :: "exn + int"
  threads :: thread_env

text \<open>\<open>self.__sock.send(data)\<close>: with no socket stored, the attribute access raises.\<close>

definition sock_send :: "demo \<Rightarrow> cb_env \<Rightarrow> bytes \<Rightarrow> event list \<times> (exn + int)" where
  "sock_send d env data =
     (case sock d of
        None \<Rightarrow> ([], Inl (none_has_no ''send''))
      | Some s \<Rightarrow> ([SockSend s data], send_result env))"

text \<open>
  \<open>__uart_cb\<close>. The two UART calls are outside the \<open>try\<close>: an exception there leaves the
  callback (third component). The \<open>try\<close> holds only the send; \<open>blink\<close> and the second
  debug line are its \<open>else\<close> branch.
\<close>

definition uart_cb :: "demo \<Rightarrow> cb_env \<Rightarrow> event list \<times> demo \<times> exn option" where
  "uart_cb d env =
     (case uart d of
        None \<Rightarrow> ([], d, Some (none_has_no ''any''))
      | Some u \<Rightarrow>
          (case any_result env of
             Inl e \<Rightarrow> ([UartAny u], d, Some e)
           | Inr unread_data_size \<Rightarrow>
               (case read_result env of
                  Inl e \<Rightarrow> ([UartAny u, UartRead u unread_data_size], d, Some e)
                | Inr data \<Rightarrow>
                    (let pre = [UartAny u, UartRead u unread_data_size,
                                Log DEBUG ''read data from serial: {}'' [ABytes data]]
                     in case sock_send d env data of
                          (evs, Inl e) \<Rightarrow>
                            (pre @ evs @
                             [Log ERROR ''send data to cloud failed! pls check your connection. error: {}''
                                [AExn e]],
                             d, None)
                        | (evs, Inr sent_length) \<Rightarrow>
                            (case blink d (threads env) 50 50 20 of
                               (bevs, d') \<Rightarrow>
                                 (pre @ evs @ [Blink 50 50 20] @ bevs @
                                  [Log DEBUG ''send data to cloud successfully, actual sent bytes size: {}''
                                     [AInt sent_length]],
                                  d', None))))))"

text \<open>The payloads handed to \<open>send\<close>, in call order.\<close>

fun sent :: "event \<Rightarrow> bytes list" where
  "sent (SockSend s b) = [b]"
| "sent _ = []"

definition sends :: "event list \<Rightarrow> bytes list" where
  "sends evs = concat (map sent evs)"

text \<open>The arguments of the calls of \<open>blink\<close>, in call order.\<close>

fun blinked :: "event \<Rightarrow> (int \<times> int \<times> int) list" where
  "blinked (Blink a b c) = [(a, b, c)]"
| "blinked _ = []"

definition blink_requests :: "event list \<Rightarrow> (int \<times> int \<times> int) list" where
  "blink_requests evs = concat (map blinked evs)"

subsection \<open>Cloud to serial: the socket reader thread\<close>

text \<open>What the devices answer during one pass of the loop.\<close>

record recv_round =
  recv_result :: "exn + bytes"
  write_result :: "exn + int"

text \<open>\<open>self.__sock.recv(1024)\<close> and \<open>self.__uart.write(data)\<close>.\<close>

definition sock_recv :: "demo \<Rightarrow> recv_round \<Rightarrow> event list \<times> (exn + bytes)" where
  "sock_recv d r =
     (case sock d of
        None \<Rightarrow> ([], Inl (none_has_no ''recv''))
      | Some s \<Rightarrow> ([SockRecv s 1024], recv_result r))"

definition uart_write :: "demo \<Rightarrow> recv_round \<Rightarrow> bytes \<Rightarrow> event list \<times> (exn + int)" where
  "uart_write d r data =
     (case uart d of
        None \<Rightarrow> ([], Inl (none_has_no ''write''))
      | Some u \<Rightarrow> ([UartWrite u data], write_result r))"

text \<open>
  The test of the outer handler: \<open>isinstance(e, OSError) and e.args[0] == 110\<close>. The
  \<open>and\<close> reads \<open>e.args[0]\<close> only for an \<open>OSError\<close>; on an empty \<open>args\<close> that read raises
  \<open>IndexError\<close> inside the handler.
\<close>

definition read_timeout :: "exn \<Rightarrow> exn + bool" where
  "read_timeout e =
     (if cls e = OSError
      then (case args e of
              [] \<Rightarrow> Inl (Exn IndexError [Val (PStr ''tuple index out of range'')])
            | a # _ \<Rightarrow> Inr (a = Val (PInt 110)))
      else Inr False)"

text \<open>How one pass of \<open>while True\<close> ends.\<close>

datatype flow = Continue | Break | Raise exn

definition worker_pass :: "demo \<Rightarrow> recv_round \<Rightarrow> event list \<times> flow" where
  "worker_pass d r =
     (case sock_recv d r of
        (evs, Inr data) \<Rightarrow>
          (case uart_write d r data of
             (wevs, Inl e) \<Rightarrow>
               (evs @ [Log DEBUG ''read data from socket: {}'' [ABytes data]] @ wevs @
                [Log ERROR ''send data to serial failed! pls check serial port status. error: {}''
                   [AExn e]],
                Continue)
           | (wevs, Inr sent_length) \<Rightarrow>
               (evs @ [Log DEBUG ''read data from socket: {}'' [ABytes data]] @ wevs @
                [Log DEBUG ''send data to serial successfully, actual sent bytes size: {}''
                   [AInt sent_length]],
                Continue))
      | (evs, Inl e) \<Rightarrow>
          (case read_timeout e of
             Inl e' \<Rightarrow> (evs, Raise e')
           | Inr True \<Rightarrow> (evs, Continue)
           | Inr False \<Rightarrow>
               (evs @ [Log CRITICAL ''socket read failed! error: {}; recv thread has broken!''
                         [AExn e]],
                Break)))"

text \<open>
  The thread, run against the answers of finitely many passes. \<open>Running\<close>: every listed
  pass was made and the loop is at its next \<open>recv\<close>. \<open>Broken\<close>: the loop left through
  \<open>break\<close>. \<open>Died e\<close>: \<open>e\<close> left the handler and ended the thread.
\<close>

datatype status = Running | Broken | Died exn

fun sock_recv_thread_worker :: "demo \<Rightarrow> recv_round list \<Rightarrow> event list \<times> status" where
  "sock_recv_thread_worker d [] = ([], Running)"
| "sock_recv_thread_worker d (r # rs) =
     (case worker_pass d r of
        (evs, Continue) \<Rightarrow>
          (case sock_recv_thread_worker d rs of (evs', st) \<Rightarrow> (evs @ evs', st))
      | (evs, Break) \<Rightarrow> (evs, Broken)
      | (evs, Raise e) \<Rightarrow> (evs, Died e))"

subsection \<open>Connecting\<close>

text \<open>An entry of what \<open>getaddrinfo\<close> returns; \<open>rv[0][4]\<close> is the \<open>sockaddr\<close> of the first.\<close>

record addrinfo =
  family :: int
  socktype :: int
  proto :: int
  canonname :: string
  sockaddr :: "string \<times> int"

record connect_env =
  getaddrinfo_result :: "exn + addrinfo list"
  socket_result :: "exn + nat"
  connect_result :: "exn + unit"
  settimeout_result :: "exn + unit"
  setsockopt_result :: "exn + unit"

text \<open>The four reads of \<open>self.config['SERVER']\<close>, in the order of the source.\<close>

definition server_config :: "pyval \<Rightarrow> exn + (pyval \<times> pyval \<times> pyval \<times> pyval)" where
  "server_config c =
     and_then (getitem2 c ''SERVER'' ''host'') (\<lambda>host.
     and_then (getitem2 c ''SERVER'' ''port'') (\<lambda>port.
     and_then (getitem2 c ''SERVER'' ''timeout'') (\<lambda>timeout.
     and_then (getitem2 c ''SERVER'' ''keep_alive'') (\<lambda>keep_alive.
     Inr (host, port, timeout, keep_alive)))))"

text \<open>
  The \<open>try\<close> block of \<open>connect_cloud\<close>: the events, the object, and the exception that
  ended the block, if one did. \<open>self.__sock\<close> is assigned as soon as the socket exists.
\<close>

definition connect_try :: "demo \<Rightarrow> connect_env \<Rightarrow> event list \<times> demo \<times> exn option" where
  "connect_try d env =
     (case server_config (config d) of
        Inl e \<Rightarrow> ([], d, Some e)
      | Inr (host, port, timeout, keep_alive) \<Rightarrow>
          (case getaddrinfo_result env of
             Inl e \<Rightarrow> ([GetAddrInfo host port], d, Some e)
           | Inr [] \<Rightarrow>
               ([GetAddrInfo host port], d,
                Some (Exn ValueError [Fmt ''DNS detect error for addr: {},{}'' [host, port]]))
           | Inr (a # _) \<Rightarrow>
               (case sockaddr a of
                  (ip, port') \<Rightarrow>
                    (case socket_result env of
                       Inl e \<Rightarrow> ([GetAddrInfo host port, SockNew], d, Some e)
                     | Inr s \<Rightarrow>
                         (let d1 = d\<lparr>sock := Some s\<rparr>;
                              c1 = [GetAddrInfo host port, SockNew, SockConnect s ip port'];
                              c2 = c1 @ [SockSetTimeout s timeout];
                              c3 = c2 @ [SockSetKeepAlive s keep_alive]
                          in case connect_result env of
                               Inl e \<Rightarrow> (c1, d1, Some e)
                             | Inr _ \<Rightarrow>
                                 (case settimeout_result env of
                                    Inl e \<Rightarrow> (c2, d1, Some e)
                                  | Inr _ \<Rightarrow>
                                      (case setsockopt_result env of
                                         Inl e \<Rightarrow> (c3, d1, Some e)
                                       | Inr _ \<Rightarrow> (c3, d1, None))))))))"

text \<open>\<open>connect_cloud\<close>: the handler logs, the \<open>else\<close> branch starts the reader thread.\<close>

definition connect_cloud :: "demo \<Rightarrow> connect_env \<Rightarrow> event list \<times> demo" where
  "connect_cloud d env =
     (case connect_try d env of
        (evs, d', Some e) \<Rightarrow> (evs @ [Log ERROR ''connect cloud failed: {}'' [AExn e]], d')
      | (evs, d', None) \<Rightarrow>
          (evs @ [StartThread SockRecvWorker, Log INFO ''connect cloud successfully.'' []], d'))"

subsection \<open>Opening the serial port\<close>

text \<open>\<open>uart_attr\<close> answers \<open>getattr(UART, 'UART{}'.format(port))\<close>.\<close>

record serial_env =
  uart_attr :: "pyval \<Rightarrow> exn + pyval"
  uart_new_result :: "exn + nat"
  set_callback_result :: "exn + unit"

text \<open>The arguments of the constructor, evaluated left to right.\<close>

definition uart_args :: "pyval \<Rightarrow> serial_env \<Rightarrow> exn + pyval list" where
  "uart_args c env =
     and_then (getitem2 c ''UART'' ''port'') (\<lambda>port.
     and_then (uart_attr env port) (\<lambda>n.
     and_then (getitem2 c ''UART'' ''baudrate'') (\<lambda>baudrate.
     and_then (getitem2 c ''UART'' ''bytesize'') (\<lambda>bytesize.
     and_then (getitem2 c ''UART'' ''parity'') (\<lambda>parity.
     and_then (getitem2 c ''UART'' ''stopbits'') (\<lambda>stopbits.
     and_then (getitem2 c ''UART'' ''flowctl'') (\<lambda>flowctl.
     Inr [n, baudrate, bytesize, parity, stopbits, flowctl])))))))"

definition open_serial :: "demo \<Rightarrow> serial_env \<Rightarrow> event list \<times> demo" where
  "open_serial d env =
     (case uart_args (config d) env of
        Inl e \<Rightarrow> ([Log ERROR ''open serial failed: {}'' [AExn e]], d)
      | Inr as \<Rightarrow>
          (case uart_new_result env of
             Inl e \<Rightarrow> ([UartNew as, Log ERROR ''open serial failed: {}'' [AExn e]], d)
           | Inr u \<Rightarrow>
               (case set_callback_result env of
                  Inl e \<Rightarrow>
                    ([UartNew as, UartSetCallback u, Log ERROR ''open serial failed: {}'' [AExn e]],
                     d\<lparr>uart := Some u\<rparr>)
                | Inr _ \<Rightarrow>
                    ([UartNew as, UartSetCallback u, Log INFO ''open serial successfully.'' []],
                     d\<lparr>uart := Some u\<rparr>))))"

text \<open>\<open>run\<close>: the serial port first, then the cloud.\<close>

definition run :: "demo \<Rightarrow> serial_env \<Rightarrow> connect_env \<Rightarrow> event list \<times> demo" where
  "run d senv cenv =
     (case open_serial d senv of
        (evs1, d1) \<Rightarrow>
          (case connect_cloud d1 cenv of
             (evs2, d2) \<Rightarrow> (Log INFO ''{} run...'' [ASelf (name d)] # evs1 @ evs2, d2)))"

subsection \<open>The life of the object\<close>

text \<open>
  The methods that can run on the object after its construction, each with the answers
  it is run against, and the object after a sequence of them. The two threads are not
  among them: neither assigns to the object.
\<close>

datatype call =
    OpenSerial serial_env
  | ConnectCloud connect_env
  | UartCb cb_env
  | BlinkCall thread_env int int int
  | RunCall serial_env connect_env

fun after :: "demo \<Rightarrow> call \<Rightarrow> demo" where
  "after d (OpenSerial env) = snd (open_serial d env)"
| "after d (ConnectCloud env) = snd (connect_cloud d env)"
| "after d (UartCb env) = fst (snd (uart_cb d env))"
| "after d (BlinkCall env a b c) = snd (blink d env a b c)"
| "after d (RunCall senv cenv) = snd (run d senv cenv)"

definition lifetime :: "demo \<Rightarrow> call list \<Rightarrow> demo" where
  "lifetime d calls = foldl after d calls"

subsection \<open>Reading a trace\<close>

text \<open>The payloads handed to \<open>write\<close> of the UART, in call order.\<close>

fun written :: "event \<Rightarrow> bytes list" where
  "written (UartWrite u b) = [b]"
| "written _ = []"

definition writes :: "event list \<Rightarrow> bytes list" where
  "writes evs = concat (map written evs)"

text \<open>The calls of \<open>recv\<close>.\<close>

fun is_recv :: "event \<Rightarrow> bool" where
  "is_recv (SockRecv s n) = True"
| "is_recv _ = False"

definition recv_calls :: "event list \<Rightarrow> nat" where
  "recv_calls evs = length (filter is_recv evs)"

text \<open>The threads started.\<close>

fun started :: "event \<Rightarrow> task list" where
  "started (StartThread k) = [k]"
| "started _ = []"

definition starts :: "event list \<Rightarrow> task list" where
  "starts evs = concat (map started evs)"

text \<open>What the socket handed over in the listed passes, in order.\<close>

definition received :: "recv_round list \<Rightarrow> bytes list" where
  "received rs = concat (map (\<lambda>r. case recv_result r of Inl e \<Rightarrow> [] | Inr b \<Rightarrow> [b]) rs)"

subsection \<open>Which answers end the reader loop\<close>

text \<open>A pass whose \<open>recv\<close> raised the read timeout, and a pass whose \<open>recv\<close> raised anything else.\<close>

definition timed_out :: "recv_round \<Rightarrow> bool" where
  "timed_out r =
     (case recv_result r of
        Inl e \<Rightarrow> read_timeout e = Inr True
      | Inr b \<Rightarrow> False)"

definition fatal :: "recv_round \<Rightarrow> bool" where
  "fatal r =
     (case recv_result r of
        Inl e \<Rightarrow> read_timeout e \<noteq> Inr True
      | Inr b \<Rightarrow> False)"

definition harmless :: "recv_round \<Rightarrow> bool" where
  "harmless r = (\<not> fatal r)"

subsection \<open>Whether connecting went through\<close>

text \<open>Every step of the \<open>try\<close> block of \<open>connect_cloud\<close> returned.\<close>

definition resolved :: "connect_env \<Rightarrow> bool" where
  "resolved env =
     (case getaddrinfo_result env of
        Inl e \<Rightarrow> False
      | Inr [] \<Rightarrow> False
      | Inr (a # as) \<Rightarrow> True)"

definition connect_ok :: "demo \<Rightarrow> connect_env \<Rightarrow> bool" where
  "connect_ok d env =
     (isl (server_config (config d)) = False \<and> resolved env
      \<and> isl (socket_result env) = False \<and> isl (connect_result env) = False
      \<and> isl (settimeout_result env) = False \<and> isl (setsockopt_result env) = False)"

text \<open>The socket was created, and a later step of the block raised.\<close>

definition setup_failed :: "connect_env \<Rightarrow> bool" where
  "setup_failed env =
     (isl (connect_result env) \<or> isl (settimeout_result env) \<or> isl (setsockopt_result env))"

text \<open>
  The sockets a run of \<open>connect_cloud\<close> has connected: those whose \<open>connect\<close> call is in
  the trace and returned.
\<close>

fun connected_by :: "connect_env \<Rightarrow> event \<Rightarrow> nat list" where
  "connected_by env (SockConnect s ip p) = (if isl (connect_result env) then [] else [s])"
| "connected_by env _ = []"

definition connected :: "connect_env \<Rightarrow> event list \<Rightarrow> nat list" where
  "connected env evs = concat (map (connected_by env) evs)"

text \<open>After \<open>connect_cloud\<close> the object holds a socket, and that socket is not connected.\<close>

definition keeps_unconnected :: "demo \<Rightarrow> connect_env \<Rightarrow> bool" where
  "keeps_unconnected d env =
     (case sock (snd (connect_cloud d env)) of
        None \<Rightarrow> False
      | Some s \<Rightarrow> s \<notin> set (connected env (fst (connect_cloud d env))))"

text \<open>The send of the callback returned.\<close>

definition send_succeeds :: "demo \<Rightarrow> cb_env \<Rightarrow> bool" where
  "send_succeeds d env =
     (case sock d of
        None \<Rightarrow> False
      | Some s \<Rightarrow> isl (send_result env) = False)"

subsection \<open>The thread library and the LED threads\<close>

text \<open>
  The program asks the thread library two things: to start a thread, and whether a thread
  still runs. Here the library is a table of the LED threads that were started and have
  not ended, each with its id and the arguments it was started with. The library chooses
  the id of a new thread.

  \<open>blink\<close> holds no lock, so a call is not one step. It is three, and between any two of
  them another call may run: the guard (the \<open>if\<close> that reads the stored id and asks the
  library), the start of the thread (the right-hand side of the assignment), and the
  store of the returned id (the assignment). A caller is where a call has got to,
  with the arguments of the call.
\<close>

datatype pc = AtGuard | AtStart | AtStore int | Returned

record world =
  app :: demo
  live :: "(int \<times> task) list"
  callers :: "(pc \<times> int \<times> int \<times> int) list"

text \<open>
  \<open>Enter\<close>: a call of \<open>blink\<close> begins. \<open>Advance i tid\<close>: caller \<open>i\<close> runs its next
  statement, and \<open>tid\<close> is the id the library hands out if that statement starts a thread.
  \<open>Finish t\<close>: thread \<open>t\<close> ends.
\<close>

datatype action = Enter int int int | Advance nat int | Finish int

definition library :: "world \<Rightarrow> int \<Rightarrow> thread_env" where
  "library w tid =
     \<lparr>thread_is_running = (\<lambda>t. t \<in> set (map fst (live w))), new_thread_id = tid\<rparr>"

definition advance :: "world \<Rightarrow> nat \<Rightarrow> int \<Rightarrow> world" where
  "advance w i tid =
     (if i < length (callers w)
      then (case callers w ! i of
              (AtGuard, a, b, c) \<Rightarrow>
                w\<lparr>callers := (callers w)
                     [i := (if blink_busy (app w) (library w tid) then Returned else AtStart,
                            a, b, c)]\<rparr>
            | (AtStart, a, b, c) \<Rightarrow>
                w\<lparr>live := live w @ [(tid, LedBlinkWorker a b c)],
                   callers := (callers w)[i := (AtStore tid, a, b, c)]\<rparr>
            | (AtStore t, a, b, c) \<Rightarrow>
                w\<lparr>app := (app w)\<lparr>led_blink_thread_id := Some t\<rparr>,
                   callers := (callers w)[i := (Returned, a, b, c)]\<rparr>
            | (Returned, a, b, c) \<Rightarrow> w)
      else w)"

fun step :: "world \<Rightarrow> action \<Rightarrow> world" where
  "step w (Enter on_remaining off_remaining count) =
     w\<lparr>callers := callers w @ [(AtGuard, on_remaining, off_remaining, count)]\<rparr>"
| "step w (Advance i tid) = advance w i tid"
| "step w (Finish t) = w\<lparr>live := filter (\<lambda>p. fst p \<noteq> t) (live w)\<rparr>"

definition steps :: "world \<Rightarrow> action list \<Rightarrow> world" where
  "steps w acts = foldl step w acts"

text \<open>A call that runs from its first statement to its last with nothing in between.\<close>

definition alone :: "world \<Rightarrow> int \<Rightarrow> int \<Rightarrow> int \<Rightarrow> int \<Rightarrow> action list" where
  "alone w a b c tid =
     [Enter a b c, Advance (length (callers w)) tid, Advance (length (callers w)) tid,
      Advance (length (callers w)) tid]"

subsection \<open>The shape of the configuration\<close>

fun is_int :: "pyval \<Rightarrow> bool" where
  "is_int (PInt n) = True"
| "is_int _ = False"

fun is_str :: "pyval \<Rightarrow> bool" where
  "is_str (PStr s) = True"
| "is_str _ = False"

text \<open>
  The integer codes the UART constructor takes: parity 0 (none), 1 (even), 2 (odd);
  flow control 0 (none), 1 (hardware).
\<close>

fun is_parity :: "pyval \<Rightarrow> bool" where
  "is_parity (PInt n) = (n = 0 \<or> n = 1 \<or> n = 2)"
| "is_parity _ = False"

fun is_flowctl :: "pyval \<Rightarrow> bool" where
  "is_flowctl (PInt n) = (n = 0 \<or> n = 1)"
| "is_flowctl _ = False"

definition field_is :: "(pyval \<Rightarrow> bool) \<Rightarrow> pyval \<Rightarrow> string \<Rightarrow> string \<Rightarrow> bool" where
  "field_is p c g k =
     (case getitem2 c g k of
        Inl e \<Rightarrow> False
      | Inr v \<Rightarrow> p v)"

text \<open>
  The shape as the specification declares it: the server's host a string, its port,
  timeout and keep-alive integers; the UART's fields integers, parity and flow control
  from their enumerations; the LED's pin an integer.
\<close>

definition declared_shape :: "pyval \<Rightarrow> bool" where
  "declared_shape c =
     (field_is is_str c ''SERVER'' ''host'' \<and> field_is is_int c ''SERVER'' ''port''
      \<and> field_is is_int c ''SERVER'' ''timeout'' \<and> field_is is_int c ''SERVER'' ''keep_alive''
      \<and> field_is is_int c ''UART'' ''port'' \<and> field_is is_int c ''UART'' ''baudrate''
      \<and> field_is is_int c ''UART'' ''bytesize'' \<and> field_is is_parity c ''UART'' ''parity''
      \<and> field_is is_int c ''UART'' ''stopbits'' \<and> field_is is_flowctl c ''UART'' ''flowctl''
      \<and> field_is is_int c ''LED'' ''GPIOn'')"

text \<open>The shape as the source writes it: the same, but the server's port is a string.\<close>

definition written_shape :: "pyval \<Rightarrow> bool" where
  "written_shape c =
     (field_is is_str c ''SERVER'' ''host'' \<and> field_is is_str c ''SERVER'' ''port''
      \<and> field_is is_int c ''SERVER'' ''timeout'' \<and> field_is is_int c ''SERVER'' ''keep_alive''
      \<and> field_is is_int c ''UART'' ''port'' \<and> field_is is_int c ''UART'' ''baudrate''
      \<and> field_is is_int c ''UART'' ''bytesize'' \<and> field_is is_parity c ''UART'' ''parity''
      \<and> field_is is_int c ''UART'' ''stopbits'' \<and> field_is is_flowctl c ''UART'' ''flowctl''
      \<and> field_is is_int c ''LED'' ''GPIOn'')"

subsection \<open>A run of the program\<close>

text \<open>
  The object \<open>Demo('Quectel')\<close>, devices that answer as a working board and a reachable
  server do, and what the object is after \<open>run\<close> on them.
\<close>

definition pins :: pin_env where
  "pins = \<lparr>pin_attr = (\<lambda>n. if n = PInt 16 then Inr (PInt 16)
                         else Inl (Exn AttributeError [Val n])),
           pin_new_result = Inr 3\<rparr>"

definition quectel :: demo where
  "quectel = \<lparr>name = ''Quectel'', config = DEMO_CONFIG, uart = None, sock = None,
              led = 3, led_blink_thread_id = None\<rparr>"

definition serial_up :: serial_env where
  "serial_up = \<lparr>uart_attr = (\<lambda>p. Inr (PInt 2)), uart_new_result = Inr 1,
                set_callback_result = Inr ()\<rparr>"

definition cloud_up :: connect_env where
  "cloud_up =
     \<lparr>getaddrinfo_result =
        Inr [\<lparr>family = 2, socktype = 1, proto = 6, canonname = [],
              sockaddr = (''220.180.239.212'', 8305)\<rparr>],
      socket_result = Inr 2, connect_result = Inr (), settimeout_result = Inr (),
      setsockopt_result = Inr ()\<rparr>"

definition serial_only :: demo where
  "serial_only = quectel\<lparr>uart := Some 1\<rparr>"

definition relay :: demo where
  "relay = quectel\<lparr>uart := Some 1, sock := Some 2\<rparr>"

text \<open>A server that refuses the connection, and a name that resolves to nothing.\<close>

definition cloud_refused :: connect_env where
  "cloud_refused = cloud_up\<lparr>connect_result := Inl (Exn OSError [Val (PInt 111)])\<rparr>"

text \<open>A server that accepts the connection, on a socket that refuses the keep-alive option.\<close>

definition keepalive_refused :: connect_env where
  "keepalive_refused = cloud_up\<lparr>setsockopt_result := Inl (Exn OSError [Val (PInt 22)])\<rparr>"

definition no_address :: connect_env where
  "no_address = cloud_up\<lparr>getaddrinfo_result := Inr []\<rparr>"

text \<open>
  Five bytes on the UART with a socket that takes them; the same with a socket that raises;
  a notification with nothing to read.
\<close>

definition hello :: cb_env where
  "hello = \<lparr>any_result = Inr 5, read_result = Inr ''hello'', send_result = Inr 5,
            threads = \<lparr>thread_is_running = (\<lambda>t. False), new_thread_id = 7\<rparr>\<rparr>"

definition hello_lost :: cb_env where
  "hello_lost = hello\<lparr>send_result := Inl (Exn OSError [Val (PInt 104)])\<rparr>"

definition nothing_to_read :: cb_env where
  "nothing_to_read = hello\<lparr>any_result := Inr 0, read_result := Inr [], send_result := Inr 0\<rparr>"

text \<open>
  Passes of the reader loop: four bytes arrive; the read times out; the peer resets the
  connection; the peer has closed and \<open>recv\<close> hands over no bytes.
\<close>

definition pong :: recv_round where
  "pong = \<lparr>recv_result = Inr ''pong'', write_result = Inr 4\<rparr>"

definition quiet :: recv_round where
  "quiet = \<lparr>recv_result = Inl (Exn OSError [Val (PInt 110)]), write_result = Inr 0\<rparr>"

definition reset :: recv_round where
  "reset = \<lparr>recv_result = Inl (Exn OSError [Val (PInt 104)]), write_result = Inr 0\<rparr>"

definition closed :: recv_round where
  "closed = \<lparr>recv_result = Inr [], write_result = Inr 0\<rparr>"

text \<open>The relay with no LED thread running.\<close>

definition boot :: world where
  "boot = \<lparr>app = relay, live = [], callers = []\<rparr>"

text \<open>
  Two notifications of the UART whose callbacks overlap: both calls of \<open>blink\<close> pass the
  guard before either has started its thread. The library hands out the ids 7 and 8.
\<close>

definition overlap :: "action list" where
  "overlap =
     [Enter 50 50 20, Enter 50 50 20, Advance 0 7, Advance 1 8,
      Advance 0 7, Advance 0 7, Advance 1 8, Advance 1 8]"

section \<open>Properties\<close>

subsection \<open>Reading traces piece by piece\<close>

lemma sends_append: "sends (xs @ ys) = sends xs @ sends ys"
  by (simp add: sends_def)

lemma sends_Nil: "sends [] = []"
  by (simp add: sends_def)

lemma sends_Cons: "sends (e # es) = sent e @ sends es"
  by (simp add: sends_def)

lemmas sends_simps = sends_Nil sends_Cons sends_append

lemma blink_requests_Nil: "blink_requests [] = []"
  by (simp add: blink_requests_def)

lemma blink_requests_Cons: "blink_requests (e # es) = blinked e @ blink_requests es"
  by (simp add: blink_requests_def)

lemma blink_requests_append: "blink_requests (xs @ ys) = blink_requests xs @ blink_requests ys"
  by (simp add: blink_requests_def)

lemmas blink_requests_simps = blink_requests_Nil blink_requests_Cons blink_requests_append

lemma starts_Nil: "starts [] = []"
  by (simp add: starts_def)

lemma starts_Cons: "starts (e # es) = started e @ starts es"
  by (simp add: starts_def)

lemma starts_append: "starts (xs @ ys) = starts xs @ starts ys"
  by (simp add: starts_def)

lemmas starts_simps = starts_Nil starts_Cons starts_append

lemma writes_Nil: "writes [] = []"
  by (simp add: writes_def)

lemma writes_Cons: "writes (e # es) = written e @ writes es"
  by (simp add: writes_def)

lemma writes_append: "writes (xs @ ys) = writes xs @ writes ys"
  by (simp add: writes_def)

lemmas writes_simps = writes_Nil writes_Cons writes_append

lemma recv_calls_Nil: "recv_calls [] = 0"
  by (simp add: recv_calls_def)

lemma recv_calls_Cons: "recv_calls (e # es) = (if is_recv e then 1 else 0) + recv_calls es"
  by (simp add: recv_calls_def)

lemma recv_calls_append: "recv_calls (xs @ ys) = recv_calls xs + recv_calls ys"
  by (simp add: recv_calls_def)

lemmas recv_calls_simps = recv_calls_Nil recv_calls_Cons recv_calls_append

subsection \<open>The run\<close>

lemma init_quectel: "init ''Quectel'' PNone pins = Inr quectel"
  by (simp add: init_def and_then_def pins_def quectel_def DEMO_CONFIG_def getitem2_def)

text \<open>A configuration that names a pin the board does not have: the constructor raises.\<close>

lemma init_no_such_pin:
  "init ''Quectel'' (PDict [(''LED'', PDict [(''GPIOn'', PInt 99)])]) pins
     = Inl (Exn AttributeError [Val (PInt 99)])"
  by (simp add: init_def and_then_def pins_def getitem2_def)

lemma open_serial_quectel:
  "open_serial quectel serial_up =
     ([UartNew [PInt 2, PInt 115200, PInt 8, PInt 0, PInt 1, PInt 0], UartSetCallback 1,
       Log INFO ''open serial successfully.'' []],
      serial_only)"
  by (simp add: open_serial_def uart_args_def and_then_def getitem2_def quectel_def
      serial_only_def serial_up_def DEMO_CONFIG_def)

lemma server_config_demo:
  "server_config DEMO_CONFIG = Inr (PStr ''220.180.239.212'', PStr ''8305'', PInt 5, PInt 5)"
  by (simp add: server_config_def and_then_def DEMO_CONFIG_def getitem2_def)

lemma connect_cloud_quectel:
  "connect_cloud serial_only cloud_up =
     ([GetAddrInfo (PStr ''220.180.239.212'') (PStr ''8305''), SockNew,
       SockConnect 2 ''220.180.239.212'' 8305, SockSetTimeout 2 (PInt 5),
       SockSetKeepAlive 2 (PInt 5), StartThread SockRecvWorker,
       Log INFO ''connect cloud successfully.'' []],
      relay)"
proof -
  have "config serial_only = DEMO_CONFIG"
    by (simp add: quectel_def serial_only_def)
  then show ?thesis
    by (simp add: connect_cloud_def connect_try_def server_config_demo Let_def cloud_up_def
        relay_def serial_only_def)
qed

lemma run_quectel: "snd (run quectel serial_up cloud_up) = relay"
  by (simp only: run_def open_serial_quectel connect_cloud_quectel prod.case snd_conv)

subsection \<open>Serial to cloud\<close>

lemma blink_requests_blink: "blink_requests (fst (blink d tenv a b c)) = []"
  by (simp add: blink_def blink_requests_simps)

lemma blink_no_send: "filter (\<lambda>e. sent e \<noteq> []) (fst (blink d tenv a b c)) = []"
  by (simp add: blink_def)

lemma blink_sends: "sends (fst (blink d tenv a b c)) = []"
  by (simp add: blink_def sends_simps)

lemma uart_cb_sent:
  assumes "uart d = Some u" and "sock d = Some s"
    and "any_result env = Inr n" and "read_result env = Inr b" and "send_result env = Inr k"
  shows "uart_cb d env =
     ([UartAny u, UartRead u n, Log DEBUG ''read data from serial: {}'' [ABytes b],
       SockSend s b, Blink 50 50 20] @ fst (blink d (threads env) 50 50 20) @
      [Log DEBUG ''send data to cloud successfully, actual sent bytes size: {}'' [AInt k]],
      snd (blink d (threads env) 50 50 20), None)"
  using assms by (simp add: uart_cb_def sock_send_def Let_def split: prod.splits)

lemma uart_cb_send_raised:
  assumes "uart d = Some u" and "sock d = Some s"
    and "any_result env = Inr n" and "read_result env = Inr b" and "send_result env = Inl e"
  shows "uart_cb d env =
     ([UartAny u, UartRead u n, Log DEBUG ''read data from serial: {}'' [ABytes b],
       SockSend s b,
       Log ERROR ''send data to cloud failed! pls check your connection. error: {}'' [AExn e]],
      d, None)"
  using assms by (simp add: uart_cb_def sock_send_def Let_def)

text \<open>
  Before a socket exists (\<open>run\<close> opens the serial port first, and a failed resolution
  leaves \<open>__sock\<close> as \<open>None\<close>), the attribute access raises inside the \<open>try\<close>: the
  library is not called and the error is logged.
\<close>

lemma uart_cb_no_socket:
  assumes "uart d = Some u" and "sock d = None"
    and "any_result env = Inr n" and "read_result env = Inr b"
  shows "uart_cb d env =
     ([UartAny u, UartRead u n, Log DEBUG ''read data from serial: {}'' [ABytes b],
       Log ERROR ''send data to cloud failed! pls check your connection. error: {}''
         [AExn (none_has_no ''send'')]],
      d, None)"
  using assms by (simp add: uart_cb_def sock_send_def Let_def)

lemma uart_cb_sends_filter:
  assumes "uart d = Some u" and "sock d = Some s"
    and "any_result env = Inr n" and "read_result env = Inr b"
  shows "filter (\<lambda>e. sent e \<noteq> []) (fst (uart_cb d env)) = [SockSend s b]"
  using assms
  by (cases "send_result env") (simp_all add: uart_cb_sent uart_cb_send_raised blink_no_send)

lemma uart_cb_sends:
  assumes "uart d = Some u" and "sock d = Some s"
    and "any_result env = Inr n" and "read_result env = Inr b"
  shows "sends (fst (uart_cb d env)) = [b]"
  using assms
  by (cases "send_result env")
    (simp_all add: uart_cb_sent uart_cb_send_raised sends_simps blink_sends)

text \<open>
  C1. Whatever bytes \<open>b\<close> the UART read hands to the callback, and whatever the socket then
  answers, the callback calls \<open>send\<close> of the stored socket once, with \<open>b\<close> itself: \<open>b\<close> is
  the only payload sent, and the only send event of the trace is that call.
\<close>

theorem uart_cb_sends_once:
  assumes "uart d = Some u" and "sock d = Some s"
    and "any_result env = Inr n" and "read_result env = Inr b"
  shows "sends (fst (uart_cb d env)) = [b]
       \<and> filter (\<lambda>e. sent e \<noteq> []) (fst (uart_cb d env)) = [SockSend s b]"
  using assms by (simp add: uart_cb_sends uart_cb_sends_filter)

text \<open>C1 on the relay: the five bytes \<open>hello\<close> go out once, as they are.\<close>

theorem uart_cb_sends_once_witness:
  "uart relay = Some 1 \<and> sock relay = Some 2 \<and> any_result hello = Inr 5
   \<and> read_result hello = Inr ''hello''
   \<and> sends (fst (uart_cb relay hello)) = [''hello'']
   \<and> filter (\<lambda>e. sent e \<noteq> []) (fst (uart_cb relay hello)) = [SockSend 2 ''hello'']"
proof -
  have h: "uart relay = Some 1" "sock relay = Some 2" "any_result hello = Inr 5"
    "read_result hello = Inr ''hello''"
    by (simp_all add: relay_def quectel_def hello_def)
  from uart_cb_sends_once [OF h] h show ?thesis by simp
qed

text \<open>
  C5. With the read returning \<open>b\<close>: \<open>blink\<close> is called, with (50, 50, 20), exactly when
  the send returned, and then once. When the send returned \<open>k\<close>, the call of \<open>blink\<close>
  follows the send and the debug line with \<open>k\<close> is the last event. When the send raised
  \<open>e\<close>, the trace ends with the error line for \<open>e\<close>, nothing else was done and the
  object is unchanged.
\<close>

theorem uart_cb_blink_iff_sent:
  assumes "uart d = Some u" and "any_result env = Inr n" and "read_result env = Inr b"
  shows "blink_requests (fst (uart_cb d env)) = (if send_succeeds d env then [(50, 50, 20)] else [])
    \<and> (sock d = Some s \<and> send_result env = Inr k \<longrightarrow>
         fst (uart_cb d env) =
           [UartAny u, UartRead u n, Log DEBUG ''read data from serial: {}'' [ABytes b],
            SockSend s b, Blink 50 50 20] @ fst (blink d (threads env) 50 50 20) @
           [Log DEBUG ''send data to cloud successfully, actual sent bytes size: {}'' [AInt k]])
    \<and> (sock d = Some s \<and> send_result env = Inl e \<longrightarrow>
         uart_cb d env =
           ([UartAny u, UartRead u n, Log DEBUG ''read data from serial: {}'' [ABytes b],
             SockSend s b,
             Log ERROR ''send data to cloud failed! pls check your connection. error: {}'' [AExn e]],
            d, None))"
proof (cases "sock d")
  case None
  with assms show ?thesis
    by (simp add: uart_cb_no_socket send_succeeds_def blink_requests_simps)
next
  case (Some s')
  show ?thesis
  proof (cases "send_result env")
    case (Inl e')
    with Some assms show ?thesis
      by (simp add: uart_cb_send_raised send_succeeds_def blink_requests_simps)
  next
    case (Inr k')
    with Some assms show ?thesis
      by (simp add: uart_cb_sent send_succeeds_def blink_requests_simps blink_requests_blink)
  qed
qed

text \<open>
  C5 on the relay. \<open>hello\<close> is sent: one call of \<open>blink\<close> with (50, 50, 20), one LED
  thread started with these arguments, the size logged last. \<open>hello\<close> is lost: no call of
  \<open>blink\<close>, the error logged, the object as it was.
\<close>

theorem uart_cb_blink_iff_sent_witness:
  "uart relay = Some 1 \<and> any_result hello = Inr 5 \<and> read_result hello = Inr ''hello''
   \<and> send_succeeds relay hello
   \<and> blink_requests (fst (uart_cb relay hello)) = [(50, 50, 20)]
   \<and> fst (uart_cb relay hello) =
        [UartAny 1, UartRead 1 5, Log DEBUG ''read data from serial: {}'' [ABytes ''hello''],
         SockSend 2 ''hello'', Blink 50 50 20, StartThread (LedBlinkWorker 50 50 20),
         Log DEBUG ''send data to cloud successfully, actual sent bytes size: {}'' [AInt 5]]
   \<and> \<not> send_succeeds relay hello_lost
   \<and> blink_requests (fst (uart_cb relay hello_lost)) = []
   \<and> uart_cb relay hello_lost =
        ([UartAny 1, UartRead 1 5, Log DEBUG ''read data from serial: {}'' [ABytes ''hello''],
          SockSend 2 ''hello'',
          Log ERROR ''send data to cloud failed! pls check your connection. error: {}''
            [AExn (Exn OSError [Val (PInt 104)])]],
         relay, None)"
proof -
  have h: "uart relay = Some 1" "any_result hello = Inr 5" "read_result hello = Inr ''hello''"
    by (simp_all add: relay_def quectel_def hello_def)
  have l: "uart relay = Some 1" "any_result hello_lost = Inr 5"
    "read_result hello_lost = Inr ''hello''"
    by (simp_all add: relay_def quectel_def hello_def hello_lost_def)
  have s: "sock relay = Some 2" "send_result hello = Inr 5"
    "send_result hello_lost = Inl (Exn OSError [Val (PInt 104)])"
    by (simp_all add: relay_def quectel_def hello_def hello_lost_def)
  have b: "fst (blink relay (threads hello) 50 50 20) = [StartThread (LedBlinkWorker 50 50 20)]"
    by (simp add: blink_def blink_busy_def relay_def quectel_def)
  have y: "send_succeeds relay hello" and n: "\<not> send_succeeds relay hello_lost"
    using s by (simp_all add: send_succeeds_def)
  from uart_cb_blink_iff_sent [OF h, of 2 5] uart_cb_blink_iff_sent [OF l, of 2 _ "Exn OSError [Val (PInt 104)]"]
    h s b y n
  show ?thesis by (simp add: blink_requests_simps)
qed

text \<open>
  C10. A notification with nothing to read: \<open>any\<close> answers 0, \<open>read\<close> is called with 0
  and returns no bytes. The callback still calls \<open>send\<close>, once, with the empty payload, and
  \<open>blink\<close> is called exactly when that send returned.
\<close>

theorem uart_cb_forwards_empty:
  assumes "uart d = Some u" and "sock d = Some s"
    and "any_result env = Inr 0" and "read_result env = Inr []"
  shows "take 2 (fst (uart_cb d env)) = [UartAny u, UartRead u 0]
    \<and> filter (\<lambda>e. sent e \<noteq> []) (fst (uart_cb d env)) = [SockSend s []]
    \<and> blink_requests (fst (uart_cb d env)) = (if isl (send_result env) then [] else [(50, 50, 20)])"
proof (cases "send_result env")
  case (Inl e)
  with assms show ?thesis
    by (simp add: uart_cb_send_raised blink_requests_simps)
next
  case (Inr k)
  with assms show ?thesis
    by (simp add: uart_cb_sent blink_no_send blink_requests_simps blink_requests_blink)
qed

text \<open>C10 on the relay: the empty payload is sent, and the LED is asked to blink.\<close>

theorem uart_cb_forwards_empty_witness:
  "uart relay = Some 1 \<and> sock relay = Some 2 \<and> any_result nothing_to_read = Inr 0
   \<and> read_result nothing_to_read = Inr []
   \<and> take 2 (fst (uart_cb relay nothing_to_read)) = [UartAny 1, UartRead 1 0]
   \<and> filter (\<lambda>e. sent e \<noteq> []) (fst (uart_cb relay nothing_to_read)) = [SockSend 2 []]
   \<and> blink_requests (fst (uart_cb relay nothing_to_read)) = [(50, 50, 20)]"
proof -
  have h: "uart relay = Some 1" "sock relay = Some 2" "any_result nothing_to_read = Inr 0"
    "read_result nothing_to_read = Inr []"
    by (simp_all add: relay_def quectel_def hello_def nothing_to_read_def)
  have s: "send_result nothing_to_read = Inr 0"
    by (simp add: hello_def nothing_to_read_def)
  from uart_cb_forwards_empty [OF h] h s show ?thesis by simp
qed

subsection \<open>Connecting\<close>

lemma connect_try_starts: "starts (fst (connect_try d env)) = []"
  by (simp add: connect_try_def Let_def starts_simps split: sum.splits list.splits prod.splits)

lemma connect_try_None: "(snd (snd (connect_try d env)) = None) = connect_ok d env"
  by (auto simp: connect_try_def connect_ok_def resolved_def Let_def
      split: sum.splits list.splits prod.splits)

lemma connect_cloud_starts:
  "starts (fst (connect_cloud d env)) = (if connect_ok d env then [SockRecvWorker] else [])"
proof (cases "connect_try d env")
  case (fields evs d' x)
  have s: "starts evs = []"
    using connect_try_starts [of d env] fields by simp
  have n: "(x = None) = connect_ok d env"
    using connect_try_None [of d env] fields by simp
  show ?thesis
    using s n fields by (cases x) (simp_all add: connect_cloud_def starts_simps)
qed

lemma connect_cloud_state: "snd (connect_cloud d env) = fst (snd (connect_try d env))"
  by (simp add: connect_cloud_def split: prod.splits option.splits)

lemma connect_try_dns:
  assumes "getaddrinfo_result env = Inr []"
  shows "connect_try d env =
     (case server_config (config d) of
        Inl e \<Rightarrow> ([], d, Some e)
      | Inr (host, port, timeout, keep_alive) \<Rightarrow>
          ([GetAddrInfo host port], d,
           Some (Exn ValueError [Fmt ''DNS detect error for addr: {},{}'' [host, port]])))"
  using assms by (simp add: connect_try_def split: sum.splits prod.splits)

lemma connect_try_keeps_socket:
  assumes "isl (server_config (config d)) = False" and "resolved env"
    and "socket_result env = Inr s"
  shows "sock (fst (snd (connect_try d env))) = Some s"
    and "uart (fst (snd (connect_try d env))) = uart d"
  using assms
  by (auto simp: connect_try_def resolved_def Let_def split: sum.splits list.splits prod.splits)

text \<open>
  C6. When the resolver returns no address: no thread is started and the object is as it
  was (no socket is made). With a configuration that names the server, the trace is the
  call of the resolver and one error line, for the \<open>ValueError\<close> the method raised about
  the DNS result and then caught.
\<close>

theorem connect_cloud_dns_failure:
  assumes "getaddrinfo_result env = Inr []"
  shows "starts (fst (connect_cloud d env)) = [] \<and> snd (connect_cloud d env) = d
    \<and> (server_config (config d) = Inr (host, port, timeout, keep_alive) \<longrightarrow>
         fst (connect_cloud d env) =
           [GetAddrInfo host port,
            Log ERROR ''connect cloud failed: {}''
              [AExn (Exn ValueError [Fmt ''DNS detect error for addr: {},{}'' [host, port]])]])"
  using assms
  by (simp add: connect_cloud_def connect_try_dns starts_simps split: sum.splits prod.splits)

text \<open>C6 on \<open>Demo('Quectel')\<close>, with a name that resolves to nothing.\<close>

theorem connect_cloud_dns_failure_witness:
  "getaddrinfo_result no_address = Inr []
   \<and> server_config (config quectel) = Inr (PStr ''220.180.239.212'', PStr ''8305'', PInt 5, PInt 5)
   \<and> starts (fst (connect_cloud quectel no_address)) = []
   \<and> snd (connect_cloud quectel no_address) = quectel
   \<and> fst (connect_cloud quectel no_address) =
        [GetAddrInfo (PStr ''220.180.239.212'') (PStr ''8305''),
         Log ERROR ''connect cloud failed: {}''
           [AExn (Exn ValueError [Fmt ''DNS detect error for addr: {},{}''
              [PStr ''220.180.239.212'', PStr ''8305'']])]]"
proof -
  have h: "getaddrinfo_result no_address = Inr []"
    by (simp add: no_address_def cloud_up_def)
  have c: "server_config (config quectel) = Inr (PStr ''220.180.239.212'', PStr ''8305'', PInt 5, PInt 5)"
    by (simp add: quectel_def server_config_demo)
  from connect_cloud_dns_failure [OF h, of quectel "PStr ''220.180.239.212''" "PStr ''8305''" "PInt 5" "PInt 5"]
    h c
  show ?thesis by (simp add: starts_simps)
qed

lemma connect_cloud_connected:
  assumes "isl (server_config (config d)) = False" and "resolved env"
    and "socket_result env = Inr s"
  shows "connected env (fst (connect_cloud d env)) = (if isl (connect_result env) then [] else [s])"
  using assms
  by (auto simp: connect_cloud_def connect_try_def resolved_def Let_def connected_def
      split: sum.splits list.splits prod.splits)

text \<open>
  C9, as stated, against the source: the keep-alive option raises after \<open>connect\<close> has
  returned. A step after the creation of the socket has failed and the object keeps the
  new socket, but that socket is connected.
\<close>

theorem connect_cloud_keeps_connected_socket:
  "socket_result keepalive_refused = Inr 2 \<and> setup_failed keepalive_refused
   \<and> sock (snd (connect_cloud serial_only keepalive_refused)) = Some 2
   \<and> connected keepalive_refused (fst (connect_cloud serial_only keepalive_refused)) = [2]
   \<and> \<not> keeps_unconnected serial_only keepalive_refused"
proof -
  have c: "config serial_only = DEMO_CONFIG"
    by (simp add: serial_only_def quectel_def)
  have t: "connect_cloud serial_only keepalive_refused =
     ([GetAddrInfo (PStr ''220.180.239.212'') (PStr ''8305''), SockNew,
       SockConnect 2 ''220.180.239.212'' 8305, SockSetTimeout 2 (PInt 5),
       SockSetKeepAlive 2 (PInt 5),
       Log ERROR ''connect cloud failed: {}'' [AExn (Exn OSError [Val (PInt 22)])]],
      serial_only\<lparr>sock := Some 2\<rparr>)"
    by (simp add: connect_cloud_def connect_try_def c server_config_demo Let_def
        keepalive_refused_def cloud_up_def)
  have k: "connect_result keepalive_refused = Inr ()"
    by (simp add: keepalive_refused_def cloud_up_def)
  show ?thesis
    by (simp add: keeps_unconnected_def t connected_def k setup_failed_def)
      (simp add: keepalive_refused_def cloud_up_def)
qed

text \<open>
  C9, amended. The reader thread is started exactly when every step of the \<open>try\<close> block
  returned, and then once. When the socket \<open>s\<close> was created and a later step (connect,
  timeout, keep-alive) raised: no thread is started, and the object holds \<open>s\<close>, whatever
  it held before. That socket is unconnected exactly when it was \<open>connect\<close> that raised,
  and connected when an option call did. The next notification of the UART calls \<open>send\<close>
  on \<open>s\<close>.
\<close>

theorem connect_cloud_spawn_and_kept_socket:
  "starts (fst (connect_cloud d env)) = (if connect_ok d env then [SockRecvWorker] else [])
   \<and> (isl (server_config (config d)) = False \<and> resolved env \<and> socket_result env = Inr s
        \<and> setup_failed env \<longrightarrow>
        starts (fst (connect_cloud d env)) = []
        \<and> sock (snd (connect_cloud d env)) = Some s
        \<and> connected env (fst (connect_cloud d env)) = (if isl (connect_result env) then [] else [s])
        \<and> keeps_unconnected d env = isl (connect_result env)
        \<and> (uart d = Some u \<and> any_result cb = Inr n \<and> read_result cb = Inr b \<longrightarrow>
             filter (\<lambda>e. sent e \<noteq> []) (fst (uart_cb (snd (connect_cloud d env)) cb))
               = [SockSend s b]))"
proof (intro conjI impI)
  show "starts (fst (connect_cloud d env)) = (if connect_ok d env then [SockRecvWorker] else [])"
    by (rule connect_cloud_starts)
next
  assume h: "isl (server_config (config d)) = False \<and> resolved env \<and> socket_result env = Inr s
        \<and> setup_failed env"
  then have "\<not> connect_ok d env"
    by (auto simp: connect_ok_def setup_failed_def)
  then show "starts (fst (connect_cloud d env)) = []"
    by (simp add: connect_cloud_starts)
  from h show k: "sock (snd (connect_cloud d env)) = Some s"
    by (simp add: connect_cloud_state connect_try_keeps_socket)
  from h show g: "connected env (fst (connect_cloud d env))
      = (if isl (connect_result env) then [] else [s])"
    by (simp add: connect_cloud_connected)
  from k g show "keeps_unconnected d env = isl (connect_result env)"
    by (simp add: keeps_unconnected_def)
  assume c: "uart d = Some u \<and> any_result cb = Inr n \<and> read_result cb = Inr b"
  with h have "uart (snd (connect_cloud d env)) = Some u"
    by (simp add: connect_cloud_state connect_try_keeps_socket)
  with k c show "filter (\<lambda>e. sent e \<noteq> []) (fst (uart_cb (snd (connect_cloud d env)) cb))
               = [SockSend s b]"
    using uart_cb_sends_filter [of "snd (connect_cloud d env)" u s cb n b] by simp
qed

text \<open>
  C9, amended, after \<open>open_serial\<close>. A reachable server: every step returns and the
  thread is started. A server that refuses: no thread, the object keeps socket 2,
  unconnected, and \<open>hello\<close> is sent on it. A refused keep-alive: no thread, the object
  keeps socket 2, connected.
\<close>

theorem connect_cloud_spawn_and_kept_socket_witness:
  "connect_ok serial_only cloud_up
   \<and> starts (fst (connect_cloud serial_only cloud_up)) = [SockRecvWorker]
   \<and> \<not> connect_ok serial_only cloud_refused
   \<and> isl (server_config (config serial_only)) = False \<and> resolved cloud_refused
   \<and> socket_result cloud_refused = Inr 2 \<and> setup_failed cloud_refused
   \<and> sock serial_only = None
   \<and> starts (fst (connect_cloud serial_only cloud_refused)) = []
   \<and> sock (snd (connect_cloud serial_only cloud_refused)) = Some 2
   \<and> connected cloud_refused (fst (connect_cloud serial_only cloud_refused)) = []
   \<and> keeps_unconnected serial_only cloud_refused
   \<and> filter (\<lambda>e. sent e \<noteq> []) (fst (uart_cb (snd (connect_cloud serial_only cloud_refused)) hello))
        = [SockSend 2 ''hello'']
   \<and> resolved keepalive_refused \<and> socket_result keepalive_refused = Inr 2
   \<and> setup_failed keepalive_refused
   \<and> starts (fst (connect_cloud serial_only keepalive_refused)) = []
   \<and> sock (snd (connect_cloud serial_only keepalive_refused)) = Some 2
   \<and> connected keepalive_refused (fst (connect_cloud serial_only keepalive_refused)) = [2]"
proof -
  have c: "isl (server_config (config serial_only)) = False"
    by (simp add: serial_only_def quectel_def server_config_demo)
  have r: "resolved cloud_up" "resolved cloud_refused" "resolved keepalive_refused"
    by (simp_all add: resolved_def cloud_up_def cloud_refused_def keepalive_refused_def)
  have s: "socket_result cloud_refused = Inr 2" "setup_failed cloud_refused"
    "socket_result keepalive_refused = Inr 2" "setup_failed keepalive_refused"
    by (simp_all add: setup_failed_def cloud_up_def cloud_refused_def keepalive_refused_def)
  have i: "isl (connect_result cloud_refused)" "\<not> isl (connect_result keepalive_refused)"
    by (simp_all add: cloud_up_def cloud_refused_def keepalive_refused_def)
  have y: "connect_ok serial_only cloud_up"
    using c r by (simp add: connect_ok_def) (simp add: cloud_up_def)
  have n: "\<not> connect_ok serial_only cloud_refused"
    "\<not> connect_ok serial_only keepalive_refused"
    by (simp_all add: connect_ok_def cloud_up_def cloud_refused_def keepalive_refused_def)
  have u: "uart serial_only = Some 1" "sock serial_only = None" "any_result hello = Inr 5"
    "read_result hello = Inr ''hello''"
    by (simp_all add: serial_only_def quectel_def hello_def)
  from connect_cloud_spawn_and_kept_socket [of serial_only cloud_up 2 1 hello 5 "''hello''"]
    connect_cloud_spawn_and_kept_socket [of serial_only cloud_refused 2 1 hello 5 "''hello''"]
    connect_cloud_spawn_and_kept_socket [of serial_only keepalive_refused 2 1 hello 5 "''hello''"]
    c r s i y n u
  show ?thesis by simp
qed

subsection \<open>Cloud to serial\<close>

lemma worker_pass_data:
  assumes "sock d = Some s" and "uart d = Some u" and "recv_result r = Inr b"
  shows "worker_pass d r =
     ([SockRecv s 1024, Log DEBUG ''read data from socket: {}'' [ABytes b], UartWrite u b,
       (case write_result r of
          Inl e \<Rightarrow>
            Log ERROR ''send data to serial failed! pls check serial port status. error: {}''
              [AExn e]
        | Inr k \<Rightarrow>
            Log DEBUG ''send data to serial successfully, actual sent bytes size: {}'' [AInt k])],
      Continue)"
  using assms by (simp add: worker_pass_def sock_recv_def uart_write_def split: sum.splits)

lemma worker_pass_data_no_uart:
  assumes "sock d = Some s" and "uart d = None" and "recv_result r = Inr b"
  shows "worker_pass d r =
     ([SockRecv s 1024, Log DEBUG ''read data from socket: {}'' [ABytes b],
       Log ERROR ''send data to serial failed! pls check serial port status. error: {}''
         [AExn (none_has_no ''write'')]],
      Continue)"
  using assms by (simp add: worker_pass_def sock_recv_def uart_write_def)

lemma worker_pass_timed_out:
  assumes "sock d = Some s" and "timed_out r"
  shows "worker_pass d r = ([SockRecv s 1024], Continue)"
  using assms by (auto simp: worker_pass_def sock_recv_def timed_out_def split: sum.splits)

lemma worker_pass_harmless:
  assumes "sock d = Some s" and "harmless r"
  shows "snd (worker_pass d r) = Continue" and "recv_calls (fst (worker_pass d r)) = 1"
  using assms
  by (auto simp: worker_pass_def sock_recv_def uart_write_def harmless_def fatal_def
      recv_calls_simps split: sum.splits option.splits bool.splits)

lemma worker_pass_fatal:
  assumes "sock d = Some s" and "fatal r"
  shows "snd (worker_pass d r) \<noteq> Continue" and "recv_calls (fst (worker_pass d r)) = 1"
  using assms
  by (auto simp: worker_pass_def sock_recv_def fatal_def recv_calls_simps
      split: sum.splits bool.splits)

lemma worker_Cons_harmless:
  assumes "sock d = Some s" and "harmless r"
  shows "sock_recv_thread_worker d (r # rs) =
     (fst (worker_pass d r) @ fst (sock_recv_thread_worker d rs),
      snd (sock_recv_thread_worker d rs))"
proof -
  obtain evs where "worker_pass d r = (evs, Continue)"
    using worker_pass_harmless(1) [OF assms] by (cases "worker_pass d r") simp
  then show ?thesis
    by (simp split: prod.splits)
qed

lemma worker_Cons_fatal:
  assumes "sock d = Some s" and "fatal r"
  shows "fst (sock_recv_thread_worker d (r # rs)) = fst (worker_pass d r)"
    and "snd (sock_recv_thread_worker d (r # rs)) \<noteq> Running"
    and "sock_recv_thread_worker d (r # rs) = sock_recv_thread_worker d [r]"
proof -
  obtain evs f where p: "worker_pass d r = (evs, f)" and f: "f \<noteq> Continue"
    using worker_pass_fatal(1) [OF assms] by (cases "worker_pass d r") simp
  from p f show "fst (sock_recv_thread_worker d (r # rs)) = fst (worker_pass d r)"
    by (cases f) simp_all
  from p f show "snd (sock_recv_thread_worker d (r # rs)) \<noteq> Running"
    by (cases f) simp_all
  from p f show "sock_recv_thread_worker d (r # rs) = sock_recv_thread_worker d [r]"
    by (cases f) simp_all
qed

declare sock_recv_thread_worker.simps(2) [simp del]

lemma worker_append:
  assumes "sock d = Some s" and "list_all harmless pre"
  shows "sock_recv_thread_worker d (pre @ rs) =
     (fst (sock_recv_thread_worker d pre) @ fst (sock_recv_thread_worker d rs),
      snd (sock_recv_thread_worker d rs))"
  using assms(2)
proof (induction pre)
  case Nil
  show ?case by simp
next
  case (Cons r pre)
  then show ?case
    by (simp add: worker_Cons_harmless [OF assms(1)])
qed

lemma worker_harmless:
  assumes "sock d = Some s" and "list_all harmless rs"
  shows "snd (sock_recv_thread_worker d rs) = Running"
    and "recv_calls (fst (sock_recv_thread_worker d rs)) = length rs"
  using assms(2)
  by (induction rs)
    (simp_all add: recv_calls_simps worker_Cons_harmless [OF assms(1)]
      worker_pass_harmless [OF assms(1)])

lemma worker_exit_fatal:
  assumes "sock d = Some s" and "snd (sock_recv_thread_worker d rs) \<noteq> Running"
  shows "list_ex fatal rs"
proof (rule ccontr)
  assume "\<not> list_ex fatal rs"
  then have "list_all harmless rs"
    by (simp add: list_all_iff list_ex_iff harmless_def)
  then have "snd (sock_recv_thread_worker d rs) = Running"
    by (rule worker_harmless(1) [OF assms(1)])
  with assms(2) show False by simp
qed

lemma worker_writes:
  assumes "sock d = Some s" and "uart d = Some u"
  shows "writes (fst (sock_recv_thread_worker d rs)) = received (takeWhile harmless rs)"
proof (induction rs)
  case Nil
  show ?case by (simp add: writes_simps received_def)
next
  case (Cons r rs)
  show ?case
  proof (cases "fatal r")
    case True
    then have "writes (fst (worker_pass d r)) = []"
      by (auto simp: worker_pass_def sock_recv_def fatal_def assms writes_simps
          split: sum.splits bool.splits)
    with True show ?thesis
      by (simp add: worker_Cons_fatal(1) [OF assms(1)] harmless_def received_def)
  next
    case False
    then have h: "harmless r" by (simp add: harmless_def)
    have "writes (fst (worker_pass d r)) = received [r]"
    proof (cases "recv_result r")
      case (Inl e)
      with h have "timed_out r"
        by (simp add: harmless_def fatal_def timed_out_def)
      with Inl show ?thesis
        by (simp add: worker_pass_timed_out [OF assms(1)] writes_simps received_def)
    next
      case (Inr b)
      then show ?thesis
        by (simp add: worker_pass_data [OF assms] writes_simps received_def split: sum.splits)
    qed
    with h Cons show ?thesis
      by (simp add: worker_Cons_harmless [OF assms(1)] writes_simps received_def)
  qed
qed

text \<open>
  C2. A pass of the reader loop whose \<open>recv\<close> returned \<open>b\<close> calls \<open>write\<close> of the stored
  UART once, with \<open>b\<close> itself, whatever \<open>write\<close> then answers, and the loop goes on. Over
  a run of the thread, the payloads written are the payloads received up to the pass that
  ended the loop, each once and in order.
\<close>

theorem worker_pass_writes_once:
  assumes "sock d = Some s" and "uart d = Some u" and "recv_result r = Inr b"
  shows "writes (fst (worker_pass d r)) = [b]
    \<and> filter (\<lambda>e. written e \<noteq> []) (fst (worker_pass d r)) = [UartWrite u b]
    \<and> snd (worker_pass d r) = Continue
    \<and> writes (fst (sock_recv_thread_worker d rs)) = received (takeWhile harmless rs)"
  using assms
  by (simp add: worker_pass_data worker_writes writes_simps split: sum.splits)

text \<open>
  C2 on the relay: \<open>pong\<close> is written once; of the answers pong, timeout, pong, reset,
  pong the first two payloads are written and the one after the reset is not.
\<close>

theorem worker_pass_writes_once_witness:
  "sock relay = Some 2 \<and> uart relay = Some 1 \<and> recv_result pong = Inr ''pong''
   \<and> writes (fst (worker_pass relay pong)) = [''pong'']
   \<and> filter (\<lambda>e. written e \<noteq> []) (fst (worker_pass relay pong)) = [UartWrite 1 ''pong'']
   \<and> snd (worker_pass relay pong) = Continue
   \<and> writes (fst (sock_recv_thread_worker relay [pong, quiet, pong, reset, pong]))
        = [''pong'', ''pong'']"
proof -
  have h: "sock relay = Some 2" "uart relay = Some 1" "recv_result pong = Inr ''pong''"
    by (simp_all add: relay_def quectel_def pong_def)
  have r: "received (takeWhile harmless [pong, quiet, pong, reset, pong]) = [''pong'', ''pong'']"
    by (simp add: received_def harmless_def fatal_def read_timeout_def pong_def quiet_def
        reset_def)
  from worker_pass_writes_once [OF h, of "[pong, quiet, pong, reset, pong]"] h r
  show ?thesis by simp
qed

text \<open>
  C3. In a run of the reader thread on a stored socket, after passes none of which was
  fatal: a pass whose \<open>recv\<close> raised the timeout (an \<open>OSError\<close> whose first argument is
  110) makes that one call and nothing else, and the loop goes on with the answers that
  follow. A pass whose \<open>recv\<close> raised anything else ends the thread: the run does not
  depend on the answers that would follow, it is not at a \<open>recv\<close> any more, and \<open>recv\<close> was
  called once per pass up to that one and never after.
\<close>

theorem reader_loop_timeout_and_fatal:
  assumes "sock d = Some s" and "list_all harmless pre"
  shows "(timed_out r \<longrightarrow>
            worker_pass d r = ([SockRecv s 1024], Continue)
            \<and> sock_recv_thread_worker d (pre @ r # post) =
                (fst (sock_recv_thread_worker d pre) @ SockRecv s 1024 #
                   fst (sock_recv_thread_worker d post),
                 snd (sock_recv_thread_worker d post)))
    \<and> (fatal r \<longrightarrow>
            sock_recv_thread_worker d (pre @ r # post) = sock_recv_thread_worker d (pre @ [r])
            \<and> snd (sock_recv_thread_worker d (pre @ r # post)) \<noteq> Running
            \<and> recv_calls (fst (sock_recv_thread_worker d (pre @ r # post))) = length pre + 1)"
proof (intro conjI impI)
  assume t: "timed_out r"
  then show p: "worker_pass d r = ([SockRecv s 1024], Continue)"
    by (simp add: worker_pass_timed_out [OF assms(1)])
  from t have "harmless r"
    by (auto simp: timed_out_def harmless_def fatal_def split: sum.splits)
  then have "sock_recv_thread_worker d (r # post) =
     (SockRecv s 1024 # fst (sock_recv_thread_worker d post),
      snd (sock_recv_thread_worker d post))"
    using p by (simp add: worker_Cons_harmless [OF assms(1)])
  then show "sock_recv_thread_worker d (pre @ r # post) =
                (fst (sock_recv_thread_worker d pre) @ SockRecv s 1024 #
                   fst (sock_recv_thread_worker d post),
                 snd (sock_recv_thread_worker d post))"
    by (simp add: worker_append [OF assms])
next
  assume f: "fatal r"
  have a: "sock_recv_thread_worker d (pre @ r # post) =
     (fst (sock_recv_thread_worker d pre) @ fst (sock_recv_thread_worker d (r # post)),
      snd (sock_recv_thread_worker d (r # post)))"
    by (rule worker_append [OF assms])
  have b: "sock_recv_thread_worker d (pre @ [r]) =
     (fst (sock_recv_thread_worker d pre) @ fst (sock_recv_thread_worker d [r]),
      snd (sock_recv_thread_worker d [r]))"
    by (rule worker_append [OF assms])
  show "sock_recv_thread_worker d (pre @ r # post) = sock_recv_thread_worker d (pre @ [r])"
    using a b worker_Cons_fatal(3) [OF assms(1) f, of post] by simp
  show "snd (sock_recv_thread_worker d (pre @ r # post)) \<noteq> Running"
    using a worker_Cons_fatal(2) [OF assms(1) f, of post] by simp
  show "recv_calls (fst (sock_recv_thread_worker d (pre @ r # post))) = length pre + 1"
    using a worker_Cons_fatal(1) [OF assms(1) f, of post] worker_pass_fatal(2) [OF assms(1) f]
      worker_harmless(2) [OF assms]
    by (simp add: recv_calls_simps)
qed

lemma example_passes:
  "worker_pass relay pong =
     ([SockRecv 2 1024, Log DEBUG ''read data from socket: {}'' [ABytes ''pong''],
       UartWrite 1 ''pong'',
       Log DEBUG ''send data to serial successfully, actual sent bytes size: {}'' [AInt 4]],
      Continue)"
  "worker_pass relay quiet = ([SockRecv 2 1024], Continue)"
  "worker_pass relay reset =
     ([SockRecv 2 1024,
       Log CRITICAL ''socket read failed! error: {}; recv thread has broken!''
         [AExn (Exn OSError [Val (PInt 104)])]],
      Break)"
  "worker_pass relay closed =
     ([SockRecv 2 1024, Log DEBUG ''read data from socket: {}'' [ABytes []], UartWrite 1 [],
       Log DEBUG ''send data to serial successfully, actual sent bytes size: {}'' [AInt 0]],
      Continue)"
  by (simp_all add: worker_pass_def sock_recv_def uart_write_def read_timeout_def relay_def
      quectel_def pong_def quiet_def reset_def closed_def)

lemma example_kinds:
  "harmless pong" "harmless quiet" "harmless closed" "timed_out quiet" "fatal reset"
  by (simp_all add: harmless_def fatal_def timed_out_def read_timeout_def pong_def quiet_def
      reset_def closed_def)

text \<open>
  C3 on the relay. After a timeout and a payload, a further timeout leaves the thread at
  its next \<open>recv\<close>; a reset ends it with the critical line, after three calls of \<open>recv\<close>,
  and the answer that would follow is never asked for.
\<close>

theorem reader_loop_timeout_and_fatal_witness:
  "sock relay = Some 2 \<and> list_all harmless [quiet, pong] \<and> timed_out quiet \<and> fatal reset
   \<and> worker_pass relay quiet = ([SockRecv 2 1024], Continue)
   \<and> snd (sock_recv_thread_worker relay ([quiet, pong] @ quiet # [pong])) = Running
   \<and> sock_recv_thread_worker relay ([quiet, pong] @ reset # [pong])
        = sock_recv_thread_worker relay ([quiet, pong] @ [reset])
   \<and> snd (sock_recv_thread_worker relay ([quiet, pong] @ reset # [pong])) = Broken
   \<and> recv_calls (fst (sock_recv_thread_worker relay ([quiet, pong] @ reset # [pong]))) = 3"
proof -
  have h: "sock relay = Some 2" "list_all harmless [quiet, pong]"
    by (simp_all add: relay_def quectel_def example_kinds)
  have t: "timed_out quiet" and f: "fatal reset"
    by (simp_all add: example_kinds)
  have e: "snd (sock_recv_thread_worker relay [pong]) = Running"
    "snd (sock_recv_thread_worker relay ([quiet, pong] @ [reset])) = Broken"
    by (simp_all add: sock_recv_thread_worker.simps example_passes)
  have t1: "worker_pass relay quiet = ([SockRecv 2 1024], Continue)"
    and t2: "sock_recv_thread_worker relay ([quiet, pong] @ quiet # [pong]) =
       (fst (sock_recv_thread_worker relay [quiet, pong]) @ SockRecv 2 1024 #
          fst (sock_recv_thread_worker relay [pong]),
        snd (sock_recv_thread_worker relay [pong]))"
    using reader_loop_timeout_and_fatal [OF h, of quiet "[pong]"] t by blast+
  have f1: "sock_recv_thread_worker relay ([quiet, pong] @ reset # [pong])
        = sock_recv_thread_worker relay ([quiet, pong] @ [reset])"
    and f3: "recv_calls (fst (sock_recv_thread_worker relay ([quiet, pong] @ reset # [pong])))
        = length [quiet, pong] + 1"
    using reader_loop_timeout_and_fatal [OF h, of reset "[pong]"] f by blast+
  have 1: "snd (sock_recv_thread_worker relay ([quiet, pong] @ quiet # [pong])) = Running"
    by (simp only: t2 snd_conv e(1))
  have 2: "snd (sock_recv_thread_worker relay ([quiet, pong] @ reset # [pong])) = Broken"
    by (simp only: f1 e(2))
  have 3: "recv_calls (fst (sock_recv_thread_worker relay ([quiet, pong] @ reset # [pong]))) = 3"
    using f3 by simp
  show ?thesis
    by (intro conjI) (fact h t f t1 1 f1 2 3)+
qed

text \<open>
  C8. A pass whose \<open>recv\<close> returned no bytes without raising is a pass like any other with
  data: the empty payload is logged and written to the UART and the loop goes on with
  the next pass; any number of such passes leaves the thread at its next \<open>recv\<close>. A run
  that has ended holds a pass whose \<open>recv\<close> raised something other than the timeout.
\<close>

theorem reader_loop_end_of_stream:
  assumes "sock d = Some s" and "uart d = Some u" and "recv_result r = Inr []"
  shows "snd (worker_pass d r) = Continue
    \<and> take 3 (fst (worker_pass d r)) =
        [SockRecv s 1024, Log DEBUG ''read data from socket: {}'' [ABytes []], UartWrite u []]
    \<and> sock_recv_thread_worker d (r # rs) =
        (fst (worker_pass d r) @ fst (sock_recv_thread_worker d rs),
         snd (sock_recv_thread_worker d rs))
    \<and> snd (sock_recv_thread_worker d (replicate n r)) = Running
    \<and> (snd (sock_recv_thread_worker d rs) \<noteq> Running \<longrightarrow> list_ex fatal rs)"
proof -
  have h: "harmless r"
    using assms(3) by (simp add: harmless_def fatal_def)
  then have "list_all harmless (replicate n r)"
    by (simp add: list_all_iff)
  then have "snd (sock_recv_thread_worker d (replicate n r)) = Running"
    by (rule worker_harmless(1) [OF assms(1)])
  then show ?thesis
    using assms h worker_exit_fatal [OF assms(1), of rs]
    by (simp add: worker_pass_data worker_Cons_harmless)
qed

text \<open>
  C8 on the relay: after the peer has closed, three passes in a row hand over no bytes and
  the thread is still at \<open>recv\<close>; the run closed, reset has ended, and it holds the reset.
\<close>

theorem reader_loop_end_of_stream_witness:
  "sock relay = Some 2 \<and> uart relay = Some 1 \<and> recv_result closed = Inr []
   \<and> snd (worker_pass relay closed) = Continue
   \<and> take 3 (fst (worker_pass relay closed)) =
        [SockRecv 2 1024, Log DEBUG ''read data from socket: {}'' [ABytes []], UartWrite 1 []]
   \<and> snd (sock_recv_thread_worker relay (replicate 3 closed)) = Running
   \<and> snd (sock_recv_thread_worker relay [closed, reset]) = Broken
   \<and> list_ex fatal [closed, reset]"
proof -
  have h: "sock relay = Some 2" "uart relay = Some 1" "recv_result closed = Inr []"
    by (simp_all add: relay_def quectel_def closed_def)
  have e: "snd (sock_recv_thread_worker relay [closed, reset]) = Broken"
    by (simp add: sock_recv_thread_worker.simps example_passes)
  from reader_loop_end_of_stream [OF h, of "[closed, reset]" 3] h e
  show ?thesis by simp
qed

subsection \<open>The LED\<close>

text \<open>The thread body does \<open>count\<close> cycles, each with the durations it was started with.\<close>

lemma led_blink_thread_worker_cycles:
  "led_blink_thread_worker a b c =
     concat (replicate (nat c) [LedWrite 1, SleepMs a, LedWrite 0, SleepMs b])"
proof (induction a b c rule: led_blink_thread_worker.induct)
  case (1 a b c)
  show ?case
  proof (cases "c > 0")
    case True
    then have "nat c = Suc (nat (c - 1))" by simp
    with True 1 show ?thesis
      by (simp del: led_blink_thread_worker.simps add: led_blink_thread_worker.simps [of a b c])
  next
    case False
    then show ?thesis by simp
  qed
qed

text \<open>
  A call of \<open>blink\<close> that no other call overlaps does what the function \<open>blink\<close> says:
  the same object afterwards, and the thread started is the one in its trace.
\<close>

lemma alone_is_blink:
  "app (steps w (alone w a b c tid)) = snd (blink (app w) (library w tid) a b c)
   \<and> live (steps w (alone w a b c tid))
       = live w @ map (Pair tid) (starts (fst (blink (app w) (library w tid) a b c)))"
  by (simp add: steps_def alone_def advance_def blink_def starts_simps nth_append library_def)

text \<open>While a thread runs whose nonzero id the object holds, such a call changes neither.\<close>

lemma alone_while_running:
  assumes "led_blink_thread_id (app w) = Some t" and "t \<noteq> 0" and "t \<in> set (map fst (live w))"
  shows "app (steps w (alone w a b c tid)) = app w \<and> live (steps w (alone w a b c tid)) = live w"
proof -
  have "blink_busy (app w) (library w tid)"
    using assms by (simp add: blink_busy_def library_def)
  then have "blink (app w) (library w tid) a b c = ([], app w)"
    by (simp add: blink_def)
  then show ?thesis
    using alone_is_blink [of w a b c tid] by (simp add: starts_simps)
qed

text \<open>
  C4. Two calls of \<open>blink\<close> that overlap, on an object with no LED thread: each passes
  the guard before the other has started its thread, and each then starts one. Two LED
  threads run at once, and the object holds the id of the second only. The guard alone
  does not keep the calls apart.
\<close>

theorem blink_overlap_two_threads:
  "live (steps boot overlap) = [(7, LedBlinkWorker 50 50 20), (8, LedBlinkWorker 50 50 20)]
   \<and> length (live (steps boot overlap)) = 2
   \<and> led_blink_thread_id (app (steps boot overlap)) = Some 8"
  by (simp add: steps_def overlap_def advance_def boot_def relay_def quectel_def blink_busy_def
      library_def)

text \<open>
  The guard reads the stored id as a truth value. Were the library to hand out the id 0,
  two calls one after the other would start two threads as well.
\<close>

lemma blink_id_zero_two_threads:
  "live (steps boot (alone boot 50 50 20 0 @ [Enter 10 10 3, Advance 1 8, Advance 1 8, Advance 1 8]))
     = [(0, LedBlinkWorker 50 50 20), (8, LedBlinkWorker 10 10 3)]"
  by (simp add: steps_def alone_def advance_def boot_def relay_def quectel_def blink_busy_def
      library_def)

subsection \<open>The configuration\<close>

lemma demo_config_written_shape: "written_shape DEMO_CONFIG"
  by (simp add: written_shape_def field_is_def getitem2_def DEMO_CONFIG_def)

lemma connect_try_config: "config (fst (snd (connect_try d env))) = config d"
  by (simp add: connect_try_def Let_def split: sum.splits list.splits prod.splits)

lemma open_serial_config: "config (snd (open_serial d env)) = config d"
  by (simp add: open_serial_def split: sum.splits)

lemma blink_config: "config (snd (blink d tenv a b c)) = config d"
  by (simp add: blink_def)

lemma uart_cb_config: "config (fst (snd (uart_cb d env))) = config d"
  by (simp add: uart_cb_def Let_def blink_def split: sum.splits option.splits prod.splits)

lemma run_config: "config (snd (run d senv cenv)) = config d"
proof -
  have "snd (run d senv cenv) = snd (connect_cloud (snd (open_serial d senv)) cenv)"
    by (simp add: run_def split: prod.splits)
  then show ?thesis
    by (simp add: connect_cloud_state connect_try_config open_serial_config)
qed

text \<open>
  C7, as stated, against the source: the configuration does not have the declared
  shape, because the server's port is the string \<open>"8305"\<close> and not an integer.
\<close>

theorem config_port_is_a_string:
  "\<not> declared_shape DEMO_CONFIG
   \<and> getitem2 DEMO_CONFIG ''SERVER'' ''port'' = Inr (PStr ''8305'')"
  by (simp add: declared_shape_def field_is_def getitem2_def DEMO_CONFIG_def)

lemma after_config: "config (after d x) = config d"
  by (cases x)
    (simp_all add: open_serial_config connect_cloud_state connect_try_config uart_cb_config
      blink_config run_config)

lemma lifetime_config: "config (lifetime d calls) = config d"
  unfolding lifetime_def
  by (induction calls arbitrary: d) (simp_all add: after_config)

text \<open>
  C7, amended. The configuration has the declared shape but for the server's port, which
  is a string, \<open>"8305"\<close>, and not an integer; parity and flow control take values of
  their enumerations (the code 0 of each, none). The record is immutable for the life of
  the process: after any sequence of methods, run against any answers of the devices,
  the object holds the configuration it was made with.
\<close>

theorem config_written_shape_and_kept:
  "written_shape DEMO_CONFIG
   \<and> getitem2 DEMO_CONFIG ''SERVER'' ''port'' = Inr (PStr ''8305'')
   \<and> field_is is_parity DEMO_CONFIG ''UART'' ''parity''
   \<and> field_is is_flowctl DEMO_CONFIG ''UART'' ''flowctl''
   \<and> config (lifetime d calls) = config d"
  by (simp add: demo_config_written_shape lifetime_config)
    (simp add: field_is_def getitem2_def DEMO_CONFIG_def)

text \<open>
  C7, amended, on \<open>Demo('Quectel')\<close>: after \<open>run\<close>, a notification of the UART and a
  further call of \<open>blink\<close> the configuration is still \<open>DEMO_CONFIG\<close>.
\<close>

theorem config_written_shape_and_kept_witness:
  "config quectel = DEMO_CONFIG
   \<and> config (lifetime quectel
        [RunCall serial_up cloud_up, UartCb hello, BlinkCall (threads hello) 10 10 3])
       = DEMO_CONFIG"
proof -
  have q: "config quectel = DEMO_CONFIG"
    by (simp add: quectel_def)
  from config_written_shape_and_kept
    [of quectel "[RunCall serial_up cloud_up, UartCb hello, BlinkCall (threads hello) 10 10 3]"] q
  show ?thesis by simp
qed

text \<open>
  The port the socket connects to is not read from the configuration: it is the one in
  the first address the resolver returned.
\<close>

lemma connect_uses_resolved_port:
  assumes "connect_ok d env" and "getaddrinfo_result env = Inr (a # as)"
    and "socket_result env = Inr s"
  shows "filter (\<lambda>e. connected_by env e \<noteq> []) (fst (connect_cloud d env))
     = [SockConnect s (fst (sockaddr a)) (snd (sockaddr a))]"
  using assms
  by (auto simp: connect_cloud_def connect_try_def connect_ok_def Let_def
      split: sum.splits list.splits prod.splits)

end
